theory Spec2Isabelle
  imports Complex_Main "HOL-Library.AList" "HOL-Library.Char_ord" "HOL-Library.List_Lexorder"
    "HOL-Library.Product_Lexorder"
begin

section \<open>Python string primitives used by \<open>process_file_contents\<close>\<close>

text \<open>
  A Python \<open>str\<close> is modelled as a \<open>string\<close> whose characters are the code points
  below 256. \<open>str.strip()\<close> removes the characters for which \<open>str.isspace\<close> holds;
  in that range they are the twelve listed here.
\<close>

definition is_space :: "char \<Rightarrow> bool" where
  "is_space c = (c \<in> set [CHR 0x09, CHR 0x0A, CHR 0x0B, CHR 0x0C, CHR 0x0D, CHR 0x1C,
     CHR 0x1D, CHR 0x1E, CHR 0x1F, CHR 0x20, CHR 0x85, CHR 0xA0])"

definition strip :: "string \<Rightarrow> string" where
  "strip s = rev (dropWhile is_space (rev (dropWhile is_space s)))"

text \<open>\<open>s.startswith(p)\<close>\<close>

definition startswith :: "string \<Rightarrow> string \<Rightarrow> bool" where
  "startswith s p = (take (length p) s = p)"

text \<open>\<open>sub in s\<close>\<close>

fun py_in :: "string \<Rightarrow> string \<Rightarrow> bool" where
  "py_in sub [] = (sub = [])"
| "py_in sub (c # cs) = (startswith (c # cs) sub \<or> py_in sub cs)"

text \<open>\<open>s.split('\n')\<close>: the pieces between line feeds, always at least one piece.\<close>

fun split_nl :: "string \<Rightarrow> string list" where
  "split_nl [] = [[]]"
| "split_nl (c # cs) =
     (if c = CHR 0x0A then [] # split_nl cs
      else (case split_nl cs of [] \<Rightarrow> [[c]] | l # ls \<Rightarrow> (c # l) # ls))"

text \<open>
  \<open>s.split(sep, 1)\<close> for a non-empty separator: the list of pieces, one piece when the
  separator does not occur and two pieces, cut at the first occurrence, when it does.
\<close>

fun split1 :: "string \<Rightarrow> string \<Rightarrow> string list" where
  "split1 sep [] = [[]]"
| "split1 sep (c # cs) =
     (if startswith (c # cs) sep then [[], drop (length sep) (c # cs)]
      else (case split1 sep cs of [] \<Rightarrow> [[c]] | a # rest \<Rightarrow> (c # a) # rest))"

datatype exn =
    ValueError
  | KeyError
  | DateParseError
  | OverflowError
  | UnknownTimeZoneError

text \<open>\<open>key, value = pieces\<close> raises \<open>ValueError\<close> unless there are exactly two pieces.\<close>

fun unpack2 :: "string list \<Rightarrow> exn + (string \<times> string)" where
  "unpack2 [k, v] = Inr (k, v)"
| "unpack2 _ = Inl ValueError"

section \<open>Record extraction (lines 11 to 22 of \<open>process_file_contents\<close>)\<close>

text \<open>
  A raw record is a Python \<open>dict\<close> from strings to strings. It is kept as an association
  list in insertion order; \<open>current_record[key] = value\<close> is \<open>AList.update\<close>, which
  overwrites the value of a key already present and appends a new key at the end.
\<close>

type_synonym raw_record = "(string \<times> string) list"

definition marker :: string where
  "marker = ''Adds yours text:''"

definition separator :: string where
  "separator = '': ''"

text \<open>
  One iteration of the \<open>for\<close> loop on the state \<open>(records, current_record)\<close>. An
  exception raised in the body leaves the loop, and the function, as \<open>Inl\<close>.
\<close>

definition assign_kv :: "raw_record \<Rightarrow> string \<Rightarrow> exn + raw_record" where
  "assign_kv current_record line =
     (if py_in separator line then
        (case unpack2 (split1 separator line) of
           Inl e \<Rightarrow> Inl e
         | Inr (key, val) \<Rightarrow> Inr (AList.update key val current_record))
      else Inr current_record)"

definition step :: "raw_record list \<times> raw_record \<Rightarrow> string \<Rightarrow> exn + raw_record list \<times> raw_record" where
  "step st raw_line =
     (let line = strip raw_line in
      if line \<noteq> [] then
        (case assign_kv (snd st) line of
           Inl e \<Rightarrow> Inl e
         | Inr current_record \<Rightarrow>
             if startswith line marker then Inr (fst st @ [current_record], [])
             else Inr (fst st, current_record))
      else Inr st)"

fun loop :: "raw_record list \<times> raw_record \<Rightarrow> string list \<Rightarrow> exn + raw_record list \<times> raw_record" where
  "loop st [] = Inr st"
| "loop st (l # ls) = (case step st l of Inl e \<Rightarrow> Inl e | Inr st' \<Rightarrow> loop st' ls)"

definition extract_lines :: "string list \<Rightarrow> exn + raw_record list" where
  "extract_lines ls = (case loop ([], []) ls of Inl e \<Rightarrow> Inl e | Inr st \<Rightarrow> Inr (fst st))"

definition extract_records :: "string \<Rightarrow> exn + raw_record list" where
  "extract_records file_contents = extract_lines (split_nl file_contents)"

text \<open>A terminator line: after trimming it starts with the marker text.\<close>

definition is_terminator :: "string \<Rightarrow> bool" where
  "is_terminator raw_line = startswith (strip raw_line) marker"

subsection \<open>The extraction as the specification words it\<close>

text \<open>
  The key and value of a line: everything before and everything after the first
  occurrence of the separator, when there is one.
\<close>

fun kv_of :: "string \<Rightarrow> (string \<times> string) option" where
  "kv_of [] = None"
| "kv_of (c # cs) =
     (if startswith (c # cs) separator then Some ([], drop (length separator) (c # cs))
      else map_option (\<lambda>(k, v). (c # k, v)) (kv_of cs))"

definition add_line :: "string \<Rightarrow> raw_record \<Rightarrow> raw_record" where
  "add_line raw_line r = (case kv_of (strip raw_line) of None \<Rightarrow> r | Some (k, v) \<Rightarrow> AList.update k v r)"

definition record_of :: "string list \<Rightarrow> raw_record" where
  "record_of ls = fold add_line ls []"

text \<open>
  The lines cut into terminated blocks, each block ending with its terminator line; the
  lines after the last terminator belong to no block.
\<close>

fun blocks :: "string list \<Rightarrow> string list \<Rightarrow> string list list" where
  "blocks acc [] = []"
| "blocks acc (l # ls) =
     (if is_terminator l then (acc @ [l]) # blocks [] ls else blocks (acc @ [l]) ls)"

text \<open>
  The reading of the specification: a record holds the pairs of the lines strictly
  before its terminator line.
\<close>

definition spec_extract :: "string \<Rightarrow> raw_record list" where
  "spec_extract file_contents = map (\<lambda>b. record_of (butlast b)) (blocks [] (split_nl file_contents))"

text \<open>What the loop computes: the terminator line contributes its own pair.\<close>

definition block_extract :: "string \<Rightarrow> raw_record list" where
  "block_extract file_contents = map record_of (blocks [] (split_nl file_contents))"

section \<open>The aggregation (lines 24 to 46 of \<open>process_file_contents\<close>)\<close>

text \<open>
  Two libraries decide what the aggregation accepts: \<open>pd.to_datetime\<close> decides which
  strings are dates, and the zone database behind \<open>tz_convert\<close> decides which names
  are zones. Both are parameters of the model. \<open>parse_date\<close> gives, for one string
  read with \<open>utc=True\<close>, \<open>None\<close> when \<open>to_datetime\<close> raises, \<open>Some NaT\<close> for a string
  it reads as missing, and \<open>Some (Instant t)\<close> with \<open>t\<close> the seconds since the epoch.
  \<open>tz_offset\<close> gives \<open>None\<close> for an unknown zone name and otherwise the zone's offset
  from UTC, in seconds, at each instant.
\<close>

datatype stamp = NaT | Instant int

record env =
  parse_date :: "string \<Rightarrow> stamp option"
  tz_offset :: "string \<Rightarrow> (int \<Rightarrow> int) option"

text \<open>
  \<open>pd.DataFrame(records)\<close> has the union of the records' keys as columns and a missing
  value (\<open>None\<close> here) where a record lacks a key. Selecting \<open>[['Date', 'Like(s)']]\<close>
  raises \<open>KeyError\<close> when one of the two is not a column at all.
\<close>

definition columns :: "raw_record list \<Rightarrow> string list" where
  "columns records = remdups (concat (map (map fst) records))"

definition project :: "raw_record list \<Rightarrow> exn + (string option \<times> string option) list" where
  "project records =
     (if ''Date'' \<in> set (columns records) \<and> ''Like(s)'' \<in> set (columns records)
      then Inr (map (\<lambda>r. (map_of r ''Date'', map_of r ''Like(s)'')) records)
      else Inl KeyError)"

text \<open>\<open>pd.to_datetime(column, utc=True)\<close>: a missing value becomes \<open>NaT\<close>.\<close>

fun to_datetime :: "env \<Rightarrow> string option list \<Rightarrow> exn + stamp list" where
  "to_datetime e [] = Inr []"
| "to_datetime e (None # xs) =
     (case to_datetime e xs of Inl err \<Rightarrow> Inl err | Inr ds \<Rightarrow> Inr (NaT # ds))"
| "to_datetime e (Some s # xs) =
     (case parse_date e s of
        None \<Rightarrow> Inl DateParseError
      | Some d \<Rightarrow> (case to_datetime e xs of Inl err \<Rightarrow> Inl err | Inr ds \<Rightarrow> Inr (d # ds)))"

text \<open>\<open>column.dt.tz_convert(timezone)\<close>: the instants stay, the zone is looked up.\<close>

definition tz_convert :: "env \<Rightarrow> string \<Rightarrow> exn + (int \<Rightarrow> int)" where
  "tz_convert e timezone =
     (case tz_offset e timezone of None \<Rightarrow> Inl UnknownTimeZoneError | Some off \<Rightarrow> Inr off)"

text \<open>
  \<open>int(s)\<close> on a string: surrounding whitespace is dropped, one sign is allowed, and
  the digits may be separated by single underscores.
\<close>

definition is_digit :: "char \<Rightarrow> bool" where
  "is_digit c = (c \<in> set ''0123456789'')"

definition digit_val :: "char \<Rightarrow> int" where
  "digit_val c = int (of_char c) - 48"

fun parse_digits :: "bool \<Rightarrow> int \<Rightarrow> string \<Rightarrow> int option" where
  "parse_digits prev acc [] = (if prev then Some acc else None)"
| "parse_digits prev acc (c # cs) =
     (if is_digit c then parse_digits True (10 * acc + digit_val c) cs
      else if c = CHR ''_'' \<and> prev then parse_digits False acc cs
      else None)"

definition py_int :: "string \<Rightarrow> int option" where
  "py_int s =
     (case strip s of
        [] \<Rightarrow> None
      | c # cs \<Rightarrow>
          if c = CHR ''-'' then map_option uminus (parse_digits False 0 cs)
          else if c = CHR ''+'' then parse_digits False 0 cs
          else parse_digits False 0 (c # cs))"

definition in_int64 :: "int \<Rightarrow> bool" where
  "in_int64 n = (- (2 ^ 63) \<le> n \<and> n < 2 ^ 63)"

text \<open>
  \<open>column.astype(int)\<close>: a missing value cannot be converted, a string must be an
  integer literal, and the value must fit the 64-bit column.
\<close>

definition to_int64 :: "string option \<Rightarrow> exn + int" where
  "to_int64 x =
     (case x of
        None \<Rightarrow> Inl ValueError
      | Some s \<Rightarrow>
          (case py_int s of
             None \<Rightarrow> Inl ValueError
           | Some n \<Rightarrow> if in_int64 n then Inr n else Inl OverflowError))"

fun astype_int :: "string option list \<Rightarrow> exn + int list" where
  "astype_int [] = Inr []"
| "astype_int (x # xs) =
     (case to_int64 x of
        Inl err \<Rightarrow> Inl err
      | Inr n \<Rightarrow> (case astype_int xs of Inl err \<Rightarrow> Inl err | Inr ns \<Rightarrow> Inr (n # ns)))"

text \<open>
  The time-based columns, read off the wall clock of the zone: the local second count is
  the instant plus the zone's offset there. Day 0 of the epoch was a Thursday.
\<close>

definition weekdays :: "string list" where
  "weekdays = [''Monday'', ''Tuesday'', ''Wednesday'', ''Thursday'', ''Friday'', ''Saturday'',
     ''Sunday'']"

definition local_seconds :: "(int \<Rightarrow> int) \<Rightarrow> int \<Rightarrow> int" where
  "local_seconds off t = t + off t"

definition day_name :: "int \<Rightarrow> string" where
  "day_name loc = weekdays ! nat ((loc div 86400 + 3) mod 7)"

definition hour_of :: "int \<Rightarrow> int" where
  "hour_of loc = (loc mod 86400) div 3600"

definition time_of :: "int \<Rightarrow> int \<times> int \<times> int" where
  "time_of loc = (hour_of loc, (loc mod 3600) div 60, loc mod 60)"

definition two_digits :: "int \<Rightarrow> string" where
  "two_digits n = [char_of (48 + n div 10), char_of (48 + n mod 10)]"

definition strftime_p :: "int \<Rightarrow> string" where
  "strftime_p loc = (if hour_of loc < 12 then ''AM'' else ''PM'')"

definition strftime_I :: "int \<Rightarrow> string" where
  "strftime_I loc = two_digits (if hour_of loc mod 12 = 0 then 12 else hour_of loc mod 12)"

record row =
  date :: stamp
  Likes :: int
  day_of_week :: "string option"
  time :: "(int \<times> int \<times> int) option"
  time_period :: "string option"
  hour :: "int option"
  hour_12 :: "string option"

text \<open>The derived columns of a \<open>NaT\<close> row are all missing.\<close>

definition mk_row :: "(int \<Rightarrow> int) \<Rightarrow> stamp \<Rightarrow> int \<Rightarrow> row" where
  "mk_row off d n =
     (case d of
        NaT \<Rightarrow> \<lparr>date = NaT, Likes = n, day_of_week = None, time = None, time_period = None,
                 hour = None, hour_12 = None\<rparr>
      | Instant t \<Rightarrow>
          (let loc = local_seconds off t in
           \<lparr>date = Instant t, Likes = n, day_of_week = Some (day_name loc),
            time = Some (time_of loc), time_period = Some (strftime_p loc),
            hour = Some (hour_of loc), hour_12 = Some (strftime_I loc)\<rparr>))"

text \<open>
  The body of the \<open>try\<close>, statement by statement; the first statement that raises
  decides the exception.
\<close>

definition aggregate :: "env \<Rightarrow> raw_record list \<Rightarrow> string \<Rightarrow> exn + row list" where
  "aggregate e records timezone =
     (case project records of
        Inl err \<Rightarrow> Inl err
      | Inr cols \<Rightarrow>
          (case to_datetime e (map fst cols) of
             Inl err \<Rightarrow> Inl err
           | Inr dates \<Rightarrow>
               (case tz_convert e timezone of
                  Inl err \<Rightarrow> Inl err
                | Inr off \<Rightarrow>
                    (case astype_int (map snd cols) of
                       Inl err \<Rightarrow> Inl err
                     | Inr likes \<Rightarrow> Inr (map (\<lambda>(d, n). mk_row off d n) (zip dates likes))))))"

text \<open>
  The whole function. The loop runs outside the \<open>try\<close>, so an exception there would
  reach the caller (\<open>Inl\<close>). Inside the \<open>try\<close> every exception is caught: the error
  is shown (first component) and \<open>None\<close> is returned (second component).
\<close>

definition process_file_contents ::
  "env \<Rightarrow> string \<Rightarrow> string \<Rightarrow> exn + (exn option \<times> row list option)" where
  "process_file_contents e file_contents timezone =
     (case extract_records file_contents of
        Inl err \<Rightarrow> Inl err
      | Inr records \<Rightarrow>
          (case aggregate e records timezone of
             Inl err \<Rightarrow> Inr (Some err, None)
           | Inr df \<Rightarrow> Inr (None, Some df)))"

section \<open>The heat map and the summaries (\<open>create_heatmap\<close>, \<open>main\<close>)\<close>

text \<open>
  The mean of an integer column is computed in floating point; the model takes the exact
  quotient. \<open>round(2)\<close> rounds the hundredths to the nearest integer, ties to the even
  one.
\<close>

definition mean :: "int list \<Rightarrow> rat" where
  "mean ns = of_int (sum_list ns) / of_int (int (length ns))"

definition rint :: "rat \<Rightarrow> int" where
  "rint q =
     (let f = \<lfloor>q\<rfloor>; r = q - of_int f in
      if r < 1 / 2 then f else if 1 / 2 < r then f + 1 else if even f then f else f + 1)"

definition round2 :: "rat \<Rightarrow> rat" where
  "round2 q = of_int (rint (q * 100)) / 100"


text \<open>
  \<open>groupby(['day_of_week', 'hour'])\<close> drops the rows whose key has a missing part and
  sorts the keys; \<open>agg\<close> takes the mean of each group.
\<close>

definition row_key :: "row \<Rightarrow> (string \<times> int) option" where
  "row_key r =
     (case day_of_week r of
        None \<Rightarrow> None
      | Some d \<Rightarrow> (case hour r of None \<Rightarrow> None | Some h \<Rightarrow> Some (d, h)))"

definition group_keys :: "row list \<Rightarrow> (string \<times> int) list" where
  "group_keys df = sort (remdups (List.map_filter row_key df))"

definition group_likes :: "row list \<Rightarrow> string \<times> int \<Rightarrow> int list" where
  "group_likes df k = map Likes (filter (\<lambda>r. row_key r = Some k) df)"

definition df_grouped :: "row list \<Rightarrow> ((string \<times> int) \<times> rat) list" where
  "df_grouped df = map (\<lambda>k. (k, round2 (mean (group_likes df k)))) (group_keys df)"

text \<open>
  \<open>pivot\<close>: one row per day, one column per hour, both sorted; a cell with no group is
  missing.
\<close>

record heatmap =
  hm_index :: "string list"
  hm_columns :: "int list"
  hm_values :: "rat option list list"

definition pivot :: "((string \<times> int) \<times> rat) list \<Rightarrow> heatmap" where
  "pivot g =
     (let idx = sort (remdups (map (\<lambda>x. fst (fst x)) g));
          cols = sort (remdups (map (\<lambda>x. snd (fst x)) g))
      in \<lparr>hm_index = idx, hm_columns = cols,
          hm_values = map (\<lambda>d. map (\<lambda>h. map_of g (d, h)) cols) idx\<rparr>)"

definition create_heatmap :: "row list \<Rightarrow> heatmap" where
  "create_heatmap df = pivot (df_grouped df)"

text \<open>The cell at a day label and an hour label; \<open>None\<close> when there is no such cell or it is missing.\<close>

definition heat_cell :: "heatmap \<Rightarrow> string \<Rightarrow> int \<Rightarrow> rat option" where
  "heat_cell hm d h =
     (case map_of (zip (hm_index hm) (hm_values hm)) d of
        None \<Rightarrow> None
      | Some cells \<Rightarrow> (case map_of (zip (hm_columns hm) cells) h of None \<Rightarrow> None | Some c \<Rightarrow> c))"

text \<open>
  The two metrics of \<open>main\<close>: the sum of the 64-bit column wraps around, the mean is
  rounded as above.
\<close>

definition wrap64 :: "int \<Rightarrow> int" where
  "wrap64 n = (n + 2 ^ 63) mod 2 ^ 64 - 2 ^ 63"

definition total_likes :: "row list \<Rightarrow> int" where
  "total_likes df = wrap64 (sum_list (map Likes df))"

definition average_likes :: "row list \<Rightarrow> rat" where
  "average_likes df = round2 (mean (map Likes df))"

section \<open>A concrete environment\<close>

text \<open>
  An environment that reads only timestamps of the shape \<open>YYYY-MM-DDTHH:MM:SSZ\<close> and
  knows only the zone \<open>UTC\<close>. On these inputs it agrees with the libraries.
\<close>

definition num_of :: "string \<Rightarrow> int option" where
  "num_of s = (if s \<noteq> [] \<and> list_all is_digit s then parse_digits False 0 s else None)"

definition is_leap :: "int \<Rightarrow> bool" where
  "is_leap y = (y mod 4 = 0 \<and> (y mod 100 \<noteq> 0 \<or> y mod 400 = 0))"

definition days_in_month :: "int \<Rightarrow> int \<Rightarrow> int" where
  "days_in_month y m =
     (if m = 2 then (if is_leap y then 29 else 28)
      else if m \<in> set [4, 6, 9, 11] then 30 else 31)"

definition days_from_civil :: "int \<Rightarrow> int \<Rightarrow> int \<Rightarrow> int" where
  "days_from_civil y m d =
     (let y' = (if m \<le> 2 then y - 1 else y);
          era = y' div 400;
          yoe = y' - era * 400;
          doy = (153 * ((m + 9) mod 12) + 2) div 5 + d - 1;
          doe = yoe * 365 + yoe div 4 - yoe div 100 + doy
      in era * 146097 + doe - 719468)"

definition parse_iso :: "string \<Rightarrow> stamp option" where
  "parse_iso s =
     (if length s = 20 \<and> s ! 4 = CHR ''-'' \<and> s ! 7 = CHR ''-'' \<and> s ! 10 = CHR ''T''
         \<and> s ! 13 = CHR '':'' \<and> s ! 16 = CHR '':'' \<and> s ! 19 = CHR ''Z''
      then
        (case (num_of (take 4 s), num_of (take 2 (drop 5 s)), num_of (take 2 (drop 8 s)),
               num_of (take 2 (drop 11 s)), num_of (take 2 (drop 14 s)),
               num_of (take 2 (drop 17 s))) of
           (Some y, Some m, Some d, Some hh, Some mi, Some ss) \<Rightarrow>
             if 1 \<le> m \<and> m \<le> 12 \<and> 1 \<le> d \<and> d \<le> days_in_month y m \<and> hh < 24 \<and> mi < 60 \<and> ss < 60
             then Some (Instant (days_from_civil y m d * 86400 + hh * 3600 + mi * 60 + ss))
             else None
         | _ \<Rightarrow> None)
      else None)"

definition utc_env :: env where
  "utc_env = \<lparr>parse_date = parse_iso,
              tz_offset = (\<lambda>z. if z = ''UTC'' then Some (\<lambda>t. 0) else None)\<rparr>"

section \<open>Properties of the extraction\<close>

lemma split1_two:
  "py_in sep s \<Longrightarrow> s \<noteq> [] \<Longrightarrow> \<exists>k v. split1 sep s = [k, v]"
proof (induction s)
  case Nil
  then show ?case by simp
next
  case (Cons c cs)
  show ?case
  proof (cases "startswith (c # cs) sep")
    case True
    then show ?thesis by simp
  next
    case False
    with Cons.prems have in_tl: "py_in sep cs" by simp
    have "cs \<noteq> []"
    proof
      assume "cs = []"
      with in_tl have "sep = []" by simp
      with False show False by (simp add: startswith_def)
    qed
    with Cons.IH in_tl obtain k v where "split1 sep cs = [k, v]" by blast
    with False show ?thesis by simp
  qed
qed

lemma kv_of_split1:
  "py_in separator s \<Longrightarrow> \<exists>k v. split1 separator s = [k, v] \<and> kv_of s = Some (k, v)"
proof (induction s)
  case Nil
  then show ?case by (simp add: separator_def)
next
  case (Cons c cs)
  show ?case
  proof (cases "startswith (c # cs) separator")
    case True
    then show ?thesis by simp
  next
    case False
    with Cons.prems have "py_in separator cs" by simp
    with Cons.IH obtain k v where "split1 separator cs = [k, v]" "kv_of cs = Some (k, v)"
      by blast
    with False show ?thesis by simp
  qed
qed

lemma kv_of_None: "\<not> py_in separator s \<Longrightarrow> kv_of s = None"
  by (induction s) auto

lemma assign_kv_add_line:
  "assign_kv r (strip l) = Inr (add_line l r)"
proof (cases "py_in separator (strip l)")
  case True
  from kv_of_split1 [OF True] obtain k v
    where "split1 separator (strip l) = [k, v]" "kv_of (strip l) = Some (k, v)" by blast
  with True show ?thesis by (simp add: assign_kv_def add_line_def)
next
  case False
  then show ?thesis by (simp add: assign_kv_def add_line_def kv_of_None)
qed

lemma add_line_blank: "strip l = [] \<Longrightarrow> add_line l r = r"
  by (simp add: add_line_def)

lemma blank_not_terminator: "strip l = [] \<Longrightarrow> \<not> is_terminator l"
  by (simp add: is_terminator_def startswith_def marker_def)

lemma step_eq:
  "step (recs, cur) l =
     Inr (if is_terminator l then (recs @ [add_line l cur], []) else (recs, add_line l cur))"
proof (cases "strip l = []")
  case True
  then show ?thesis
    by (simp add: step_def add_line_blank blank_not_terminator)
next
  case False
  then show ?thesis
    by (simp add: step_def assign_kv_add_line is_terminator_def)
qed

lemma record_of_snoc: "record_of (acc @ [l]) = add_line l (record_of acc)"
  by (simp add: record_of_def)

lemma loop_blocks:
  "\<exists>cur'. loop (recs, record_of acc) ls = Inr (recs @ map record_of (blocks acc ls), cur')"
proof (induction ls arbitrary: recs acc)
  case Nil
  then show ?case by simp
next
  case (Cons l ls)
  show ?case
  proof (cases "is_terminator l")
    case True
    have "record_of [] = []" by (simp add: record_of_def)
    with Cons.IH [of "recs @ [record_of (acc @ [l])]" "[]"] True show ?thesis
      by (simp add: step_eq record_of_snoc)
  next
    case False
    with Cons.IH [of recs "acc @ [l]"] show ?thesis
      by (simp add: step_eq record_of_snoc)
  qed
qed

lemma extract_lines_blocks: "extract_lines ls = Inr (map record_of (blocks [] ls))"
proof -
  have "record_of [] = []" by (simp add: record_of_def)
  with loop_blocks [of "[]" "[]" ls] show ?thesis
    by (auto simp: extract_lines_def)
qed

lemma length_blocks: "length (blocks acc ls) = length (filter is_terminator ls)"
  by (induction ls arbitrary: acc) auto

lemma blocks_no_terminator: "\<not> list_ex is_terminator ls \<Longrightarrow> blocks acc ls = []"
  by (induction ls arbitrary: acc) auto

lemma blocks_append_no_terminator:
  "\<not> list_ex is_terminator ls2 \<Longrightarrow> blocks acc (ls1 @ ls2) = blocks acc ls1"
  by (induction ls1 arbitrary: acc) (auto simp: blocks_no_terminator)

text \<open>
  C3, as amended. For every input text with N terminator lines the extraction returns
  exactly N records, in the order of their terminator lines, and each record holds the
  pairs of the lines from its start up to and including its terminator line, the last
  value winning on a repeated key.
\<close>

theorem extract_records_blocks:
  "extract_records text = Inr (block_extract text)
   \<and> length (block_extract text) = length (filter is_terminator (split_nl text))"
  by (simp add: extract_records_def block_extract_def extract_lines_blocks length_blocks)

text \<open>
  C3, as stated, fails: the pair on a terminator line is not strictly before that line,
  and the record holds it.
\<close>

theorem extract_records_not_strictly_between:
  "extract_records ''Adds yours text: x'' = Inr [[(''Adds yours text'', ''x'')]]
   \<and> spec_extract ''Adds yours text: x'' = [[]]
   \<and> extract_records ''Adds yours text: x'' \<noteq> Inr (spec_extract ''Adds yours text: x'')"
  by code_simp

text \<open>
  C4. On a terminator line that contains the separator both rules fire, in this order:
  the pair of the line is stored into the record in progress, then that record, with the
  pair in it, is appended to the output and an empty record is started.
\<close>

theorem step_terminator_with_pair:
  assumes "is_terminator l" and "py_in separator (strip l)"
  shows "\<exists>k v. split1 separator (strip l) = [k, v]
           \<and> step (recs, cur) l = Inr (recs @ [AList.update k v cur], [])"
proof -
  from kv_of_split1 [OF assms(2)] obtain k v
    where kv: "split1 separator (strip l) = [k, v]" "kv_of (strip l) = Some (k, v)" by blast
  then have "add_line l cur = AList.update k v cur" by (simp add: add_line_def)
  with assms(1) kv(1) show ?thesis by (simp add: step_eq)
qed

theorem step_terminator_with_pair_witness:
  "is_terminator ''Adds yours text: x'' \<and> py_in separator (strip ''Adds yours text: x'')
   \<and> step ([], [(''Date'', ''d'')]) ''Adds yours text: x''
       = Inr ([[(''Date'', ''d''), (''Adds yours text'', ''x'')]], [])"
proof -
  have t: "is_terminator ''Adds yours text: x''" by code_simp
  have p: "py_in separator (strip ''Adds yours text: x'')" by code_simp
  have s: "split1 separator (strip ''Adds yours text: x'') = [''Adds yours text'', ''x'']"
    by code_simp
  from step_terminator_with_pair [OF t p, of "[]" "[(''Date'', ''d'')]"] s
  have "step ([], [(''Date'', ''d'')]) ''Adds yours text: x''
          = Inr ([] @ [AList.update ''Adds yours text'' ''x'' [(''Date'', ''d'')]], [])"
    by auto
  with t p show ?thesis by simp
qed

text \<open>
  C5. When the lines after some point hold no terminator line, the extraction returns
  what it returns on the lines before that point alone: the trailing block adds no
  record and none of its pairs reaches the output.
\<close>

theorem extract_records_drops_trailing:
  assumes "split_nl text = ls1 @ ls2" and "\<not> list_ex is_terminator ls2"
  shows "extract_records text = extract_lines ls1
         \<and> (\<exists>recs. extract_records text = Inr recs
               \<and> length recs = length (filter is_terminator ls1))"
  using assms
  by (simp add: extract_records_def extract_lines_blocks blocks_append_no_terminator
      length_blocks)

theorem extract_records_drops_trailing_witness:
  "split_nl (''Adds yours text: x'' @ [CHR 0x0A] @ ''Date: d'')
     = [''Adds yours text: x''] @ [''Date: d'']
   \<and> \<not> list_ex is_terminator [''Date: d'']
   \<and> extract_records (''Adds yours text: x'' @ [CHR 0x0A] @ ''Date: d'')
       = Inr [[(''Adds yours text'', ''x'')]]"
proof -
  have a: "split_nl (''Adds yours text: x'' @ [CHR 0x0A] @ ''Date: d'')
             = [''Adds yours text: x''] @ [''Date: d'']" by code_simp
  have b: "\<not> list_ex is_terminator [''Date: d'']" by code_simp
  have c: "extract_lines [''Adds yours text: x''] = Inr [[(''Adds yours text'', ''x'')]]"
    by code_simp
  from extract_records_drops_trailing [OF a b] c a b show ?thesis by simp
qed

text \<open>
  C9. The extraction is total: on every input text the loop ends and returns a list of
  records, never an exception. A blank line, and a line that neither contains the
  separator nor starts with the marker, leaves the state of the loop as it was.
\<close>

theorem extract_records_total:
  "(\<exists>recs. extract_records text = Inr recs)
   \<and> (strip l = [] \<or> (\<not> py_in separator (strip l) \<and> \<not> is_terminator l)
        \<longrightarrow> step st l = Inr st)"
proof
  show "\<exists>recs. extract_records text = Inr recs"
    by (simp add: extract_records_def extract_lines_blocks)
next
  show "strip l = [] \<or> (\<not> py_in separator (strip l) \<and> \<not> is_terminator l)
          \<longrightarrow> step st l = Inr st"
  proof
    assume h: "strip l = [] \<or> (\<not> py_in separator (strip l) \<and> \<not> is_terminator l)"
    then have "add_line l (snd st) = snd st" and "\<not> is_terminator l"
      by (auto simp: add_line_blank blank_not_terminator add_line_def kv_of_None)
    with step_eq [of "fst st" "snd st" l] show "step st l = Inr st" by simp
  qed
qed

theorem extract_records_total_witness:
  "(\<exists>recs. extract_records ''a: b: c'' = Inr recs)
   \<and> strip ''   '' = []
   \<and> step ([], [(''k'', ''v'')]) ''   '' = Inr ([], [(''k'', ''v'')])"
proof -
  have b: "strip ''   '' = []" by code_simp
  from extract_records_total [of "''a: b: c''" "''   ''" "([], [(''k'', ''v'')])"] b
  show ?thesis by simp
qed

lemma to_datetime_length: "to_datetime e xs = Inr ds \<Longrightarrow> length ds = length xs"
proof (induction xs arbitrary: ds)
  case Nil
  then show ?case by simp
next
  case (Cons x xs)
  then show ?case
    by (cases x) (auto split: sum.splits option.splits)
qed

lemma astype_int_Inr:
  "astype_int xs = Inr ns \<Longrightarrow> map to_int64 xs = map Inr ns"
proof (induction xs arbitrary: ns)
  case Nil
  then show ?case by simp
next
  case (Cons x xs)
  then show ?case by (auto split: sum.splits)
qed

lemma columns_iff: "k \<in> set (columns records) \<longleftrightarrow> (\<exists>r \<in> set records. map_of r k \<noteq> None)"
  by (auto simp: columns_def map_of_eq_None_iff)

lemma project_Inr:
  "project records = Inr cols \<Longrightarrow>
     cols = map (\<lambda>r. (map_of r ''Date'', map_of r ''Like(s)'')) records
     \<and> (\<exists>r \<in> set records. map_of r ''Date'' \<noteq> None)
     \<and> (\<exists>r \<in> set records. map_of r ''Like(s)'' \<noteq> None)"
  unfolding project_def columns_iff by (auto split: if_splits)

lemma aggregate_Inr_iff:
  "aggregate e records tz = Inr df \<longleftrightarrow>
     (\<exists>cols dates off likes.
        project records = Inr cols \<and> to_datetime e (map fst cols) = Inr dates
        \<and> tz_offset e tz = Some off \<and> astype_int (map snd cols) = Inr likes
        \<and> df = map (\<lambda>(d, n). mk_row off d n) (zip dates likes))"
  by (auto simp: aggregate_def tz_convert_def split: sum.splits option.splits)

lemma not_Inr_Inl: "(\<forall>y. x \<noteq> Inr y) \<Longrightarrow> \<exists>err. x = Inl err"
  by (cases x) auto

lemma Likes_mk_row: "Likes (mk_row off d n) = n"
  by (cases d) (simp_all add: mk_row_def Let_def)

lemma map_Likes_rows:
  "length dates = length likes \<Longrightarrow>
     map Likes (map (\<lambda>(d, n). mk_row off d n) (zip dates likes)) = likes"
proof (induction dates arbitrary: likes)
  case Nil
  then show ?case by simp
next
  case (Cons d ds)
  then show ?case by (cases likes) (auto simp: Likes_mk_row)
qed

lemma aggregate_Likes:
  assumes "aggregate e records tz = Inr df"
  shows "map (\<lambda>r. to_int64 (map_of r ''Like(s)'')) records = map (\<lambda>x. Inr (Likes x)) df"
    and "length df = length records"
proof -
  from assms obtain cols dates off likes
    where p: "project records = Inr cols"
      and d: "to_datetime e (map fst cols) = Inr dates"
      and l: "astype_int (map snd cols) = Inr likes"
      and df: "df = map (\<lambda>(d, n). mk_row off d n) (zip dates likes)"
    unfolding aggregate_Inr_iff by blast
  from project_Inr [OF p]
  have cols: "cols = map (\<lambda>r. (map_of r ''Date'', map_of r ''Like(s)'')) records" by simp
  from astype_int_Inr [OF l] have m: "map to_int64 (map snd cols) = map Inr likes" .
  then have "length likes = length cols" by (metis length_map)
  with to_datetime_length [OF d] have len: "length dates = length likes" by simp
  from map_Likes_rows [OF len] df have lk: "map Likes df = likes" by simp
  from m cols have "map (\<lambda>r. to_int64 (map_of r ''Like(s)'')) records = map Inr likes"
    by (simp add: comp_def)
  also from lk have "map Inr likes = map (\<lambda>x. Inr (Likes x)) df" by (simp add: comp_def flip: lk)
  finally show "map (\<lambda>r. to_int64 (map_of r ''Like(s)'')) records = map (\<lambda>x. Inr (Likes x)) df" .
  from df len cols \<open>length likes = length cols\<close> show "length df = length records" by simp
qed














text \<open>
  C10. The function never hands an exception to its caller: the extraction returns its
  records, and then either the aggregation fails, the error is shown and \<open>None\<close> is
  returned, or it succeeds and the table, one row per record, is returned with no error
  shown. Each failure mode (a missing column, a date that does not parse, an unknown
  zone, a like count that does not convert) gives \<open>None\<close>.
\<close>

theorem process_file_contents_never_raises:
  "\<exists>records. extract_records text = Inr records
     \<and> (case aggregate e records tz of
          Inl err \<Rightarrow> process_file_contents e text tz = Inr (Some err, None)
        | Inr df \<Rightarrow> process_file_contents e text tz = Inr (None, Some df)
                    \<and> length df = length records)
     \<and> ((\<exists>err. project records = Inl err)
          \<or> (\<exists>cols. project records = Inr cols
                \<and> ((\<exists>err. to_datetime e (map fst cols) = Inl err)
                     \<or> tz_offset e tz = None
                     \<or> (\<exists>err. astype_int (map snd cols) = Inl err)))
         \<longrightarrow> (\<exists>err. process_file_contents e text tz = Inr (Some err, None)))"
proof -
  obtain records where x: "extract_records text = Inr records"
    by (auto simp: extract_records_def extract_lines_blocks)
  have a: "case aggregate e records tz of
          Inl err \<Rightarrow> process_file_contents e text tz = Inr (Some err, None)
        | Inr df \<Rightarrow> process_file_contents e text tz = Inr (None, Some df)
                    \<and> length df = length records"
  proof (cases "aggregate e records tz")
    case (Inl err)
    with x show ?thesis by (simp add: process_file_contents_def)
  next
    case (Inr df)
    with x aggregate_Likes(2) [OF Inr] show ?thesis by (simp add: process_file_contents_def)
  qed
  have b: "(\<exists>err. project records = Inl err)
          \<or> (\<exists>cols. project records = Inr cols
                \<and> ((\<exists>err. to_datetime e (map fst cols) = Inl err)
                     \<or> tz_offset e tz = None
                     \<or> (\<exists>err. astype_int (map snd cols) = Inl err)))
         \<longrightarrow> (\<exists>err. process_file_contents e text tz = Inr (Some err, None))"
  proof
    assume f: "(\<exists>err. project records = Inl err)
          \<or> (\<exists>cols. project records = Inr cols
                \<and> ((\<exists>err. to_datetime e (map fst cols) = Inl err)
                     \<or> tz_offset e tz = None
                     \<or> (\<exists>err. astype_int (map snd cols) = Inl err)))"
    have "\<forall>df. aggregate e records tz \<noteq> Inr df"
    proof (intro allI notI)
      fix df
      assume "aggregate e records tz = Inr df"
      then obtain cols dates off likes
        where "project records = Inr cols" "to_datetime e (map fst cols) = Inr dates"
          "tz_offset e tz = Some off" "astype_int (map snd cols) = Inr likes"
        unfolding aggregate_Inr_iff by (elim exE conjE)
      with f show False by auto
    qed
    then obtain err where "aggregate e records tz = Inl err" using not_Inr_Inl by blast
    with x show "\<exists>err. process_file_contents e text tz = Inr (Some err, None)"
      by (simp add: process_file_contents_def)
  qed
  from x a b show ?thesis by (intro exI conjI)
qed

theorem process_file_contents_never_raises_witness:
  "(\<exists>err. project [] = Inl err)
   \<and> process_file_contents utc_env '''' ''UTC'' = Inr (Some KeyError, None)"
proof -
  have p: "project [] = Inl KeyError" by code_simp
  have x: "extract_records '''' = Inr []" by code_simp
  have r: "process_file_contents utc_env '''' ''UTC'' = Inr (Some KeyError, None)" by code_simp
  from process_file_contents_never_raises [of "''''" utc_env "''UTC''"]
  obtain records where "extract_records '''' = Inr records"
    and "(\<exists>err. project records = Inl err)
          \<or> (\<exists>cols. project records = Inr cols
                \<and> ((\<exists>err. to_datetime utc_env (map fst cols) = Inl err)
                     \<or> tz_offset utc_env ''UTC'' = None
                     \<or> (\<exists>err. astype_int (map snd cols) = Inl err)))
         \<longrightarrow> (\<exists>err. process_file_contents utc_env '''' ''UTC'' = Inr (Some err, None))"
    by (elim exE conjE)
  with x p have "\<exists>err. process_file_contents utc_env '''' ''UTC'' = Inr (Some err, None)"
    by auto
  with p r show ?thesis by simp
qed








text \<open>
  C2. The example of the specification: two posts on Monday 15 January 2024 in the hour
  10 of the zone UTC, with 10 and 20 likes. The table has exactly these two rows, both
  with hour 10 and day Monday; the heat cell at (Monday, 10) is 15; the total is 30 and
  the average is 15.
\<close>

theorem example_scenario:
  "process_file_contents utc_env
     (''Date: 2024-01-15T10:00:00Z'' @ [CHR 0x0A] @ ''Like(s): 10'' @ [CHR 0x0A]
      @ ''Adds yours text: x'' @ [CHR 0x0A] @ ''Date: 2024-01-15T10:30:00Z'' @ [CHR 0x0A]
      @ ''Like(s): 20'' @ [CHR 0x0A] @ ''Adds yours text: x'' @ [CHR 0x0A]) ''UTC''
   = Inr (None, Some
       [\<lparr>date = Instant 1705312800, Likes = 10, day_of_week = Some ''Monday'',
          time = Some (10, 0, 0), time_period = Some ''AM'', hour = Some 10,
          hour_12 = Some ''10''\<rparr>,
        \<lparr>date = Instant 1705314600, Likes = 20, day_of_week = Some ''Monday'',
          time = Some (10, 30, 0), time_period = Some ''AM'', hour = Some 10,
          hour_12 = Some ''10''\<rparr>])
   \<and> heat_cell (create_heatmap
       [\<lparr>date = Instant 1705312800, Likes = 10, day_of_week = Some ''Monday'',
          time = Some (10, 0, 0), time_period = Some ''AM'', hour = Some 10,
          hour_12 = Some ''10''\<rparr>,
        \<lparr>date = Instant 1705314600, Likes = 20, day_of_week = Some ''Monday'',
          time = Some (10, 30, 0), time_period = Some ''AM'', hour = Some 10,
          hour_12 = Some ''10''\<rparr>]) ''Monday'' 10 = Some 15
   \<and> total_likes
       [\<lparr>date = Instant 1705312800, Likes = 10, day_of_week = Some ''Monday'',
          time = Some (10, 0, 0), time_period = Some ''AM'', hour = Some 10,
          hour_12 = Some ''10''\<rparr>,
        \<lparr>date = Instant 1705314600, Likes = 20, day_of_week = Some ''Monday'',
          time = Some (10, 30, 0), time_period = Some ''AM'', hour = Some 10,
          hour_12 = Some ''10''\<rparr>] = 30
   \<and> average_likes
       [\<lparr>date = Instant 1705312800, Likes = 10, day_of_week = Some ''Monday'',
          time = Some (10, 0, 0), time_period = Some ''AM'', hour = Some 10,
          hour_12 = Some ''10''\<rparr>,
        \<lparr>date = Instant 1705314600, Likes = 20, day_of_week = Some ''Monday'',
          time = Some (10, 30, 0), time_period = Some ''AM'', hour = Some 10,
          hour_12 = Some ''10''\<rparr>] = 15"
  by code_simp

end
